theory Spec2Isabelle
  imports Main
begin

section \<open>Python values, errors and callbacks\<close>

text \<open>
  The values the containers hold. Python's \<^verbatim>\<open>==\<close> on this universe is structural
  equality: \<^verbatim>\<open>None\<close>, integers, strings, lists of values, references to functions
  (compared by identity) and bound methods of the object at hand (by name). A Python boolean is the integer 0 or 1, which is how
  \<^verbatim>\<open>==\<close> and \<^verbatim>\<open>hash\<close> treat it.
\<close>

datatype pyval =
  PNone | PInt int | PStr string | PList "pyval list" | PFun nat | PMethod string


text \<open>Only lists are unhashable in this universe.\<close>

fun hashable :: "pyval \<Rightarrow> bool" where
  "hashable (PList xs) = False"
| "hashable v = True"

datatype error =
    TypeError | AttributeError | ValueError | KeyError | IndexError
  | CallbackError nat

text \<open>
  A callable registered from outside, known by its identity. \<open>Recorder h\<close> returns
  normally when called; \<open>Raiser h\<close> raises \<open>CallbackError h\<close>. Neither re-enters
  the container that calls it.
\<close>

datatype ext_callback = Recorder nat | Raiser nat

text \<open>
  The callables found in the observer lists of an \<^verbatim>\<open>ObservableValue\<close>: external
  ones, and the \<^verbatim>\<open>lambda _1, _2, n: self.set(n)\<close> that \<^verbatim>\<open>bind_to\<close> creates.
  \<open>Forward l a\<close> is the lambda object with identity \<open>l\<close> whose \<^verbatim>\<open>self\<close> is the
  value at address \<open>a\<close>.
\<close>

datatype callback = External ext_callback | Forward nat nat

section \<open>Observable\<close>

record 'cb observable =
  beforeObserverList :: "'cb list"
  afterObserverList :: "'cb list"


definition add_after_observer ::
  "'cb \<Rightarrow> ('cb, 'z) observable_scheme \<Rightarrow> ('cb, 'z) observable_scheme" where
  "add_after_observer callback self =
     self\<lparr>afterObserverList := afterObserverList self @ [callback]\<rparr>"

text \<open>\<^verbatim>\<open>list.remove\<close> deletes the first equal element and raises ValueError when there is none.\<close>

definition py_list_remove :: "'a \<Rightarrow> 'a list \<Rightarrow> error + 'a list" where
  "py_list_remove x xs = (if x \<in> set xs then Inr (remove1 x xs) else Inl ValueError)"

definition remove_before_observer ::
  "'cb \<Rightarrow> ('cb, 'z) observable_scheme \<Rightarrow> error + ('cb, 'z) observable_scheme" where
  "remove_before_observer callback self =
     (case py_list_remove callback (beforeObserverList self) of
        Inl e \<Rightarrow> Inl e
      | Inr xs \<Rightarrow> Inr (self\<lparr>beforeObserverList := xs\<rparr>))"

definition remove_after_observer ::
  "'cb \<Rightarrow> ('cb, 'z) observable_scheme \<Rightarrow> error + ('cb, 'z) observable_scheme" where
  "remove_after_observer callback self =
     (case py_list_remove callback (afterObserverList self) of
        Inl e \<Rightarrow> Inl e
      | Inr xs \<Rightarrow> Inr (self\<lparr>afterObserverList := xs\<rparr>))"

section \<open>ObservableValue\<close>

text \<open>
  Bound values call each other, so they live in a store: \<open>heap w a\<close> is the object at
  address \<open>a\<close>. \<open>calls w\<close> lists every callback invocation so far, oldest first, with
  the arguments \<^verbatim>\<open>(self, old_value, new_value)\<close> it received.
\<close>

record ovalue = "callback observable" +
  val :: pyval
  bindingMap :: "nat \<rightharpoonup> callback"

record world =
  heap :: "nat \<Rightarrow> ovalue"
  next_addr :: nat
  next_lambda :: nat
  calls :: "(callback \<times> nat \<times> pyval \<times> pyval) list"

text \<open>An argument that may or may not be an \<^verbatim>\<open>ObservableValue\<close>.\<close>

datatype arg = Ref nat | Plain pyval

definition ov_init :: "pyval \<Rightarrow> world \<Rightarrow> nat \<times> world" where
  "ov_init initial_value w =
     (next_addr w,
      w\<lparr>heap := (heap w)(next_addr w :=
             \<lparr>beforeObserverList = [], afterObserverList = [],
              val = initial_value, bindingMap = Map.empty\<rparr>),
        next_addr := Suc (next_addr w)\<rparr>)"

definition ov_get :: "nat \<Rightarrow> world \<Rightarrow> pyval" where
  "ov_get self w = val (heap w self)"

text \<open>
  \<^verbatim>\<open>set\<close> and the two dispatch loops of \<^verbatim>\<open>Observable\<close>, which call each other
  through the forwarding lambdas. The first argument bounds the depth of nested
  \<^verbatim>\<open>set\<close> calls; \<open>None\<close> means the bound was reached. No callback of this model
  changes an observer list, so the loop runs over the list as it was read.
\<close>

fun ov_set :: "nat \<Rightarrow> nat \<Rightarrow> pyval \<Rightarrow> world \<Rightarrow> ((error + unit) \<times> world) option"
and call_observers_ov ::
  "nat \<Rightarrow> callback list \<Rightarrow> nat \<Rightarrow> pyval \<Rightarrow> pyval \<Rightarrow> world \<Rightarrow> ((error + unit) \<times> world) option"
and call_callback ::
  "nat \<Rightarrow> callback \<Rightarrow> nat \<Rightarrow> pyval \<Rightarrow> pyval \<Rightarrow> world \<Rightarrow> ((error + unit) \<times> world) option"
where
  "ov_set 0 self new_value w = None"
| "ov_set (Suc n) self new_value w =
     (if val (heap w self) = new_value then Some (Inr (), w)
      else
        (let old_value = val (heap w self) in
         case call_observers_ov n (beforeObserverList (heap w self)) self old_value new_value w of
           None \<Rightarrow> None
         | Some (Inl e, w1) \<Rightarrow> Some (Inl e, w1)
         | Some (Inr u, w1) \<Rightarrow>
             (let w2 = w1\<lparr>heap := (heap w1)(self := (heap w1 self)\<lparr>val := new_value\<rparr>)\<rparr>
              in call_observers_ov n (afterObserverList (heap w2 self)) self old_value new_value w2)))"
| "call_observers_ov n [] self old_value new_value w = Some (Inr (), w)"
| "call_observers_ov n (cb # cbs) self old_value new_value w =
     (case call_callback n cb self old_value new_value
             (w\<lparr>calls := calls w @ [(cb, self, old_value, new_value)]\<rparr>) of
        None \<Rightarrow> None
      | Some (Inl e, w1) \<Rightarrow> Some (Inl e, w1)
      | Some (Inr u, w1) \<Rightarrow> call_observers_ov n cbs self old_value new_value w1)"
| "call_callback n (External (Recorder h)) self old_value new_value w = Some (Inr (), w)"
| "call_callback n (External (Raiser h)) self old_value new_value w =
     Some (Inl (CallbackError h), w)"
| "call_callback n (Forward l target) self old_value new_value w = ov_set n target new_value w"

definition bind_to :: "nat \<Rightarrow> nat \<Rightarrow> arg \<Rightarrow> world \<Rightarrow> ((error + unit) \<times> world) option" where
  "bind_to fuel self observable w =
     (case observable of
        Plain v \<Rightarrow> Some (Inl TypeError, w)
      | Ref other \<Rightarrow>
          (let lam = Forward (next_lambda w) self;
               w1 = w\<lparr>next_lambda := Suc (next_lambda w),
                      heap := (heap w)(self := (heap w self)
                                \<lparr>bindingMap := (bindingMap (heap w self))(other \<mapsto> lam)\<rparr>)\<rparr>;
               w2 = w1\<lparr>heap := (heap w1)(other := add_after_observer lam (heap w1 other))\<rparr>
           in ov_set fuel self (ov_get other w2) w2))"

definition unbind_from :: "nat \<Rightarrow> arg \<Rightarrow> world \<Rightarrow> (error + unit) \<times> world" where
  "unbind_from self observable w =
     (case observable of
        Plain v \<Rightarrow> (Inl (if hashable v then AttributeError else TypeError), w)
      | Ref other \<Rightarrow>
          (case bindingMap (heap w self) other of
             None \<Rightarrow> (Inl AttributeError, w)
           | Some lam \<Rightarrow>
               (case remove_after_observer lam (heap w self) of
                  Inl e \<Rightarrow> (Inl e, w)
                | Inr self1 \<Rightarrow>
                    (Inr (), w\<lparr>heap := (heap w)(self := self1
                                  \<lparr>bindingMap := (bindingMap self1)(other := None)\<rparr>)\<rparr>))))"

text \<open>The static methods. A plain value has no \<^verbatim>\<open>bind_to\<close> or \<^verbatim>\<open>unbind_from\<close> attribute.\<close>

definition bind :: "nat \<Rightarrow> arg \<Rightarrow> arg \<Rightarrow> world \<Rightarrow> ((error + unit) \<times> world) option" where
  "bind fuel obs1 obs2 w =
     (case obs2 of
        Plain v \<Rightarrow> Some (Inl AttributeError, w)
      | Ref b \<Rightarrow>
          (case bind_to fuel b obs1 w of
             None \<Rightarrow> None
           | Some (Inl e, w1) \<Rightarrow> Some (Inl e, w1)
           | Some (Inr u, w1) \<Rightarrow>
               (case obs1 of
                  Plain v \<Rightarrow> Some (Inl AttributeError, w1)
                | Ref a \<Rightarrow> bind_to fuel a obs2 w1)))"

definition unbind :: "arg \<Rightarrow> arg \<Rightarrow> world \<Rightarrow> (error + unit) \<times> world" where
  "unbind obs1 obs2 w =
     (case obs1 of
        Plain v \<Rightarrow> (Inl AttributeError, w)
      | Ref a \<Rightarrow>
          (case unbind_from a obs2 w of
             (Inl e, w1) \<Rightarrow> (Inl e, w1)
           | (Inr u, w1) \<Rightarrow>
               (case obs2 of
                  Plain v \<Rightarrow> (Inl AttributeError, w1)
                | Ref b \<Rightarrow> unbind_from b obs1 w1)))"

text \<open>A store with no object constructed yet.\<close>

definition empty_world :: world where
  "empty_world =
     \<lparr>heap = (\<lambda>a. \<lparr>beforeObserverList = [], afterObserverList = [],
                   val = PNone, bindingMap = Map.empty\<rparr>),
      next_addr = 0, next_lambda = 0, calls = []\<rparr>"

section \<open>Events and dispatch of the containers\<close>

text \<open>
  What a callback of a list, dictionary or object receives after \<^verbatim>\<open>self\<close>: the
  operation tag, the locator, the old and the new value.
\<close>

datatype event = Event (operation: string) (locator: pyval) (old_value: pyval) (new_value: pyval)

text \<open>
  A container with its storage and its two observer lists. \<open>trace\<close> lists every callback
  invocation so far, oldest first, with the event it received.
\<close>

record 's container = "ext_callback observable" +
  storage :: 's
  trace :: "(ext_callback \<times> event) list"

fun call_observers ::
  "ext_callback list \<Rightarrow> event \<Rightarrow> (ext_callback \<times> event) list
   \<Rightarrow> (error + unit) \<times> (ext_callback \<times> event) list" where
  "call_observers [] ev tr = (Inr (), tr)"
| "call_observers (Recorder h # cbs) ev tr = call_observers cbs ev (tr @ [(Recorder h, ev)])"
| "call_observers (Raiser h # cbs) ev tr = (Inl (CallbackError h), tr @ [(Raiser h, ev)])"

definition call_before_observers :: "event \<Rightarrow> 's container \<Rightarrow> (error + unit) \<times> 's container" where
  "call_before_observers ev self =
     (case call_observers (beforeObserverList self) ev (trace self) of
        (r, tr) \<Rightarrow> (r, self\<lparr>trace := tr\<rparr>))"

definition call_after_observers :: "event \<Rightarrow> 's container \<Rightarrow> (error + unit) \<times> 's container" where
  "call_after_observers ev self =
     (case call_observers (afterObserverList self) ev (trace self) of
        (r, tr) \<Rightarrow> (r, self\<lparr>trace := tr\<rparr>))"

section \<open>ObservableList\<close>

subsection \<open>The built-in list, with integer indices\<close>

text \<open>
  The position an integer index denotes in a list of length \<open>n\<close>: counted from the
  end when negative, none when out of range.
\<close>

definition py_index :: "nat \<Rightarrow> int \<Rightarrow> nat option" where
  "py_index n i =
     (if 0 \<le> i \<and> i < int n then Some (nat i)
      else if i < 0 \<and> - int n \<le> i then Some (nat (int n + i))
      else None)"

definition py_list_getitem :: "'a list \<Rightarrow> int \<Rightarrow> error + 'a" where
  "py_list_getitem xs i =
     (case py_index (length xs) i of None \<Rightarrow> Inl IndexError | Some j \<Rightarrow> Inr (xs ! j))"

definition py_list_setitem :: "'a list \<Rightarrow> int \<Rightarrow> 'a \<Rightarrow> error + 'a list" where
  "py_list_setitem xs i v =
     (case py_index (length xs) i of None \<Rightarrow> Inl IndexError | Some j \<Rightarrow> Inr (xs[j := v]))"





subsection \<open>The methods\<close>

type_synonym olist = "pyval list container"

definition ol_init :: "pyval list \<Rightarrow> olist" where
  "ol_init seq =
     \<lparr>beforeObserverList = [], afterObserverList = [], storage = seq, trace = []\<rparr>"









definition ol_setitem :: "int \<Rightarrow> pyval \<Rightarrow> olist \<Rightarrow> (error + unit) \<times> olist" where
  "ol_setitem index v self =
     (case py_list_getitem (storage self) index of
        Inl e \<Rightarrow> (Inl e, self)
      | Inr old \<Rightarrow>
          if old = v then (Inr (), self)
          else
            (case call_before_observers (Event ''modify'' (PInt index) old v) self of
               (Inl e, s1) \<Rightarrow> (Inl e, s1)
             | (Inr u, s1) \<Rightarrow>
                 (case py_list_setitem (storage s1) index v of
                    Inl e \<Rightarrow> (Inl e, s1)
                  | Inr xs \<Rightarrow>
                      call_after_observers (Event ''modify'' (PInt index) old v)
                        (s1\<lparr>storage := xs\<rparr>))))"

text \<open>
  \<^verbatim>\<open>__delitem__\<close> calls \<^verbatim>\<open>dict.__delitem__(self, index)\<close>. The receiver is a list,
  not a \<^verbatim>\<open>dict\<close>, so that call raises TypeError whatever the index is.
\<close>

definition dict_delitem_on_list :: "pyval list \<Rightarrow> int \<Rightarrow> error + pyval list" where
  "dict_delitem_on_list xs index = Inl TypeError"

definition ol_delitem :: "int \<Rightarrow> olist \<Rightarrow> (error + unit) \<times> olist" where
  "ol_delitem index self =
     (case py_list_getitem (storage self) index of
        Inl e \<Rightarrow> (Inl e, self)
      | Inr old \<Rightarrow>
          (case call_before_observers (Event ''delete'' (PInt index) old PNone) self of
             (Inl e, s1) \<Rightarrow> (Inl e, s1)
           | (Inr u, s1) \<Rightarrow>
               (case dict_delitem_on_list (storage s1) index of
                  Inl e \<Rightarrow> (Inl e, s1)
                | Inr xs \<Rightarrow>
                    call_after_observers (Event ''delete'' (PInt index) old PNone)
                      (s1\<lparr>storage := xs\<rparr>))))"

section \<open>ObservableDict\<close>

subsection \<open>The built-in dict, in insertion order\<close>

text \<open>
  A dictionary is the list of its items in insertion order. Looking an unhashable key
  up raises TypeError.
\<close>

definition py_dict_contains :: "(pyval \<times> 'v) list \<Rightarrow> pyval \<Rightarrow> error + bool" where
  "py_dict_contains d k =
     (if hashable k then Inr (map_of d k \<noteq> None) else Inl TypeError)"

definition py_dict_getitem :: "(pyval \<times> 'v) list \<Rightarrow> pyval \<Rightarrow> error + 'v" where
  "py_dict_getitem d k =
     (if hashable k
      then (case map_of d k of None \<Rightarrow> Inl KeyError | Some v \<Rightarrow> Inr v)
      else Inl TypeError)"

text \<open>Storing keeps the place of a key that is present and appends a new one.\<close>

fun store_item :: "'k \<Rightarrow> 'v \<Rightarrow> ('k \<times> 'v) list \<Rightarrow> ('k \<times> 'v) list" where
  "store_item k v [] = [(k, v)]"
| "store_item k v ((k', v') # d) =
     (if k' = k then (k', v) # d else (k', v') # store_item k v d)"

definition remove_item :: "'k \<Rightarrow> ('k \<times> 'v) list \<Rightarrow> ('k \<times> 'v) list" where
  "remove_item k d = filter (\<lambda>p. fst p \<noteq> k) d"

definition py_dict_setitem :: "(pyval \<times> 'v) list \<Rightarrow> pyval \<Rightarrow> 'v \<Rightarrow> error + (pyval \<times> 'v) list" where
  "py_dict_setitem d k v = (if hashable k then Inr (store_item k v d) else Inl TypeError)"


definition py_dict_pop ::
  "(pyval \<times> 'v) list \<Rightarrow> pyval \<Rightarrow> 'v \<Rightarrow> error + ('v \<times> (pyval \<times> 'v) list)" where
  "py_dict_pop d k default_value =
     (if hashable k
      then (case map_of d k of
              None \<Rightarrow> Inr (default_value, d)
            | Some v \<Rightarrow> Inr (v, remove_item k d))
      else Inl TypeError)"


subsection \<open>The methods\<close>

type_synonym odict = "(pyval \<times> pyval) list container"


definition od_pop :: "pyval \<Rightarrow> pyval \<Rightarrow> odict \<Rightarrow> (error + pyval) \<times> odict" where
  "od_pop key default_value self =
     (case py_dict_getitem (storage self) key of
        Inl e \<Rightarrow> (Inl e, self)
      | Inr old \<Rightarrow>
          (case call_before_observers (Event ''delete'' key old PNone) self of
             (Inl e, s1) \<Rightarrow> (Inl e, s1)
           | (Inr u, s1) \<Rightarrow>
               (case py_dict_pop (storage s1) key default_value of
                  Inl e \<Rightarrow> (Inl e, s1)
                | Inr (result, d) \<Rightarrow>
                    (case call_after_observers (Event ''delete'' key old PNone)
                            (s1\<lparr>storage := d\<rparr>) of
                       (Inl e, s2) \<Rightarrow> (Inl e, s2)
                     | (Inr u, s2) \<Rightarrow> (Inr result, s2)))))"


definition od_setitem :: "pyval \<Rightarrow> pyval \<Rightarrow> odict \<Rightarrow> (error + unit) \<times> odict" where
  "od_setitem key v self =
     (case py_dict_contains (storage self) key of
        Inl e \<Rightarrow> (Inl e, self)
      | Inr exists \<Rightarrow>
          (let op = (if exists then ''modify'' else ''create'') in
           case (if exists then py_dict_getitem (storage self) key else Inr PNone) of
             Inl e \<Rightarrow> (Inl e, self)
           | Inr old \<Rightarrow>
               if old = v \<and> op = ''modify'' then (Inr (), self)
               else
                 (case call_before_observers (Event op key old v) self of
                    (Inl e, s1) \<Rightarrow> (Inl e, s1)
                  | (Inr u, s1) \<Rightarrow>
                      (case py_dict_setitem (storage s1) key v of
                         Inl e \<Rightarrow> (Inl e, s1)
                       | Inr d \<Rightarrow>
                           call_after_observers (Event op key old v) (s1\<lparr>storage := d\<rparr>)))))"


text \<open>
  The argument \<^verbatim>\<open>data\<close> of \<^verbatim>\<open>update\<close>: left out (\<^verbatim>\<open>None\<close>), a dictionary (its items,
  keys distinct, in iteration order) or a sequence of pairs. The keyword arguments are
  items whose keys are strings.
\<close>

datatype update_data =
  NoData | DictData "(pyval \<times> pyval) list" | PairData "(pyval \<times> pyval) list"

fun falsy :: "update_data \<Rightarrow> bool" where
  "falsy NoData = True"
| "falsy (DictData d) = (d = [])"
| "falsy (PairData ps) = (ps = [])"

text \<open>The loop \<^verbatim>\<open>for k, v in items: self[k] = v\<close>; an exception ends it.\<close>

fun setitem_each :: "(pyval \<times> pyval) list \<Rightarrow> odict \<Rightarrow> (error + unit) \<times> odict" where
  "setitem_each [] self = (Inr (), self)"
| "setitem_each ((k, v) # items) self =
     (case od_setitem k v self of
        (Inl e, s1) \<Rightarrow> (Inl e, s1)
      | (Inr u, s1) \<Rightarrow> setitem_each items s1)"

definition od_update ::
  "update_data \<Rightarrow> (string \<times> pyval) list \<Rightarrow> odict \<Rightarrow> (error + unit) \<times> odict" where
  "od_update data kvargs self =
     (if falsy data then (Inr (), self)
      else
        (case data of
           DictData d \<Rightarrow> setitem_each d self
         | PairData ps \<Rightarrow>
             (case setitem_each ps self of
                (Inl e, s1) \<Rightarrow> (Inl e, s1)
              | (Inr u, s1) \<Rightarrow> setitem_each (map (\<lambda>(k, v). (PStr k, v)) kvargs) s1)
         | NoData \<Rightarrow> (Inr (), self)))"

definition od_init :: "(pyval \<times> pyval) list \<Rightarrow> odict" where
  "od_init seq =
     \<lparr>beforeObserverList = [], afterObserverList = [], storage = seq, trace = []\<rparr>"

section \<open>ObservableObject\<close>

text \<open>
  \<open>storage\<close> is the instance dictionary without the two observer lists, which are the
  record fields; rebinding \<^verbatim>\<open>_beforeObserverList\<close> or \<^verbatim>\<open>_afterObserverList\<close> by
  name is outside this model. \<open>class_attr\<close> gives the attributes the classes
  \<^verbatim>\<open>ObservableObject\<close> and \<^verbatim>\<open>Observable\<close> define under a name that does not start
  with an underscore.
\<close>

type_synonym oobject = "(string \<times> pyval) list container"

definition startswith_underscore :: "string \<Rightarrow> bool" where
  "startswith_underscore key = (case key of [] \<Rightarrow> False | c # cs \<Rightarrow> c = CHR ''_'')"

definition class_attr :: "string \<Rightarrow> pyval option" where
  "class_attr key =
     (if key = ''CREATE'' then Some (PStr ''create'')
      else if key = ''MODIFY'' then Some (PStr ''modify'')
      else if key = ''DELETE'' then Some (PStr ''delete'')
      else if key \<in> set [''add_before_observer'', ''add_after_observer'',
                          ''remove_before_observer'', ''remove_after_observer'']
      then Some (PMethod key)
      else None)"

definition py_getattr :: "(string \<times> pyval) list \<Rightarrow> string \<Rightarrow> error + pyval" where
  "py_getattr d key =
     (case map_of d key of
        Some v \<Rightarrow> Inr v
      | None \<Rightarrow> (case class_attr key of Some v \<Rightarrow> Inr v | None \<Rightarrow> Inl AttributeError))"

definition py_hasattr :: "(string \<times> pyval) list \<Rightarrow> string \<Rightarrow> bool" where
  "py_hasattr d key = (case py_getattr d key of Inl e \<Rightarrow> False | Inr v \<Rightarrow> True)"


definition oo_init :: oobject where
  "oo_init = \<lparr>beforeObserverList = [], afterObserverList = [], storage = [], trace = []\<rparr>"

definition oo_setattr :: "string \<Rightarrow> pyval \<Rightarrow> oobject \<Rightarrow> (error + unit) \<times> oobject" where
  "oo_setattr key v self =
     (if startswith_underscore key
      then (Inr (), self\<lparr>storage := store_item key v (storage self)\<rparr>)
      else
        (let exists = py_hasattr (storage self) key;
             op = (if exists then ''modify'' else ''create'') in
         case (if exists then py_getattr (storage self) key else Inr PNone) of
           Inl e \<Rightarrow> (Inl e, self)
         | Inr old \<Rightarrow>
             if old = v \<and> op = ''modify'' then (Inr (), self)
             else
               (case call_before_observers (Event op (PStr key) old v) self of
                  (Inl e, s1) \<Rightarrow> (Inl e, s1)
                | (Inr u, s1) \<Rightarrow>
                    call_after_observers (Event op (PStr key) old v)
                      (s1\<lparr>storage := store_item key v (storage s1)\<rparr>))))"


section \<open>The calls of each container, taken apart\<close>

text \<open>
  Every mutating method has the same three steps: checks that may raise or find
  nothing to do, the built-in mutation, and the dispatch around it. The functions of
  this section name the steps, so that one statement can range over all methods.
\<close>

fun is_rec :: "ext_callback \<Rightarrow> bool" where
  "is_rec (Recorder h) = True"
| "is_rec (Raiser h) = False"

definition invocations :: "ext_callback list \<Rightarrow> event \<Rightarrow> (ext_callback \<times> event) list" where
  "invocations cbs ev = map (\<lambda>cb. (cb, ev)) cbs"

text \<open>One before-dispatch followed by one after-dispatch of the same event.\<close>

definition notifications :: "'s container \<Rightarrow> event \<Rightarrow> (ext_callback \<times> event) list" where
  "notifications self ev =
     invocations (beforeObserverList self) ev @ invocations (afterObserverList self) ev"



subsection \<open>ObservableList\<close>





subsection \<open>ObservableDict\<close>







subsection \<open>ObservableObject\<close>






subsection \<open>ObservableValue\<close>

fun is_recorder :: "callback \<Rightarrow> bool" where
  "is_recorder (External (Recorder h)) = True"
| "is_recorder cb = False"

fun is_external :: "callback \<Rightarrow> bool" where
  "is_external (External e) = True"
| "is_external (Forward l t) = False"

text \<open>External, or a forwarding lambda whose \<^verbatim>\<open>self\<close> is the value at \<open>t\<close>.\<close>

fun forwards_only_to :: "nat \<Rightarrow> callback \<Rightarrow> bool" where
  "forwards_only_to t (External e) = True"
| "forwards_only_to t (Forward l x) = (x = t)"

definition invocations_ov ::
  "callback list \<Rightarrow> nat \<Rightarrow> pyval \<Rightarrow> pyval \<Rightarrow> (callback \<times> nat \<times> pyval \<times> pyval) list" where
  "invocations_ov cbs self old new = map (\<lambda>cb. (cb, self, old, new)) cbs"

text \<open>The invocations made by the dispatch loops of the value at \<open>a\<close>.\<close>

definition source :: "callback \<times> nat \<times> pyval \<times> pyval \<Rightarrow> nat" where
  "source c = fst (snd c)"

definition calls_from :: "nat \<Rightarrow> world \<Rightarrow> (callback \<times> nat \<times> pyval \<times> pyval) list" where
  "calls_from a w = filter (\<lambda>c. source c = a) (calls w)"

definition touch ::
  "nat \<Rightarrow> pyval \<Rightarrow> (callback \<times> nat \<times> pyval \<times> pyval) list \<Rightarrow> world \<Rightarrow> world" where
  "touch a v tr w = w\<lparr>heap := (heap w)(a := (heap w a)\<lparr>val := v\<rparr>), calls := tr\<rparr>"

text \<open>What a call that may run out of depth returned, and the value it left at \<open>a\<close>.\<close>

definition outcome :: "((error + unit) \<times> world) option \<Rightarrow> (error + unit) option" where
  "outcome res = map_option fst res"

definition value_after :: "nat \<Rightarrow> ((error + unit) \<times> world) option \<Rightarrow> pyval option" where
  "value_after a res = map_option (\<lambda>rw. ov_get a (snd rw)) res"

definition world_after :: "((error + unit) \<times> world) option \<Rightarrow> world" where
  "world_after res = (case res of None \<Rightarrow> empty_world | Some rw \<Rightarrow> snd rw)"

subsection \<open>Concrete scenarios\<close>

text \<open>\<^verbatim>\<open>a = ObservableValue(1); b = ObservableValue(2)\<close>: \<open>a\<close> is at address 0, \<open>b\<close> at 1.\<close>

definition two_values :: world where
  "two_values = snd (ov_init (PInt 2) (snd (ov_init (PInt 1) empty_world)))"

text \<open>The same after \<^verbatim>\<open>ObservableValue.bind(a, b)\<close>.\<close>

definition bound_pair :: world where
  "bound_pair = world_after (bind 3 (Ref 0) (Ref 1) two_values)"

text \<open>The same after \<^verbatim>\<open>a.bind_to(b); a.bind_to(b)\<close>.\<close>

definition twice_bound :: world where
  "twice_bound = world_after (bind_to 3 0 (Ref 1) (world_after (bind_to 3 0 (Ref 1) two_values)))"









text \<open>A container that has one before-observer and one after-observer, both well behaved.\<close>

definition watched :: "'s \<Rightarrow> 's container" where
  "watched st =
     \<lparr>beforeObserverList = [Recorder 0], afterObserverList = [Recorder 1],
      storage = st, trace = []\<rparr>"

section \<open>Properties of ObservableValue\<close>

subsection \<open>Dispatch to well-behaved callbacks\<close>

lemma call_recorders:
  "list_all is_recorder cbs \<Longrightarrow>
   call_observers_ov n cbs s old new w =
     Some (Inr (), w\<lparr>calls := calls w @ invocations_ov cbs s old new\<rparr>)"
proof (induction cbs arbitrary: w)
  case Nil
  then show ?case by (simp add: invocations_ov_def)
next
  case (Cons cb cbs)
  then obtain h where cb: "cb = External (Recorder h)"
    by (cases cb rule: is_recorder.cases) auto
  from Cons show ?case by (simp add: cb invocations_ov_def)
qed



lemma set_recorders:
  assumes "list_all is_recorder (beforeObserverList (heap w a))"
      and "list_all is_recorder (afterObserverList (heap w a))"
      and "val (heap w a) \<noteq> v"
  shows "ov_set (Suc n) a v w =
     Some (Inr (), w\<lparr>heap := (heap w)(a := (heap w a)\<lparr>val := v\<rparr>),
                      calls := calls w
                        @ invocations_ov (beforeObserverList (heap w a)) a (val (heap w a)) v
                        @ invocations_ov (afterObserverList (heap w a)) a (val (heap w a)) v\<rparr>)"
  using assms by (simp add: call_recorders Let_def)

subsection \<open>The scenarios, evaluated\<close>

lemma two_values_simps:
  "heap two_values 0 =
     \<lparr>beforeObserverList = [], afterObserverList = [], val = PInt 1, bindingMap = Map.empty\<rparr>"
  "heap two_values (Suc 0) =
     \<lparr>beforeObserverList = [], afterObserverList = [], val = PInt 2, bindingMap = Map.empty\<rparr>"
  "next_lambda two_values = 0"
  "calls two_values = []"
  by (simp_all add: two_values_def ov_init_def empty_world_def)

lemma bind_two_values:
  "bind 3 (Ref 0) (Ref 1) two_values =
     Some (Inr (), two_values
       \<lparr>next_lambda := 2,
        heap := (heap two_values)
          (0 := \<lparr>beforeObserverList = [], afterObserverList = [Forward 0 1], val = PInt 1,
                 bindingMap = [1 \<mapsto> Forward 1 0]\<rparr>,
           1 := \<lparr>beforeObserverList = [], afterObserverList = [Forward 1 0], val = PInt 1,
                 bindingMap = [0 \<mapsto> Forward 0 1]\<rparr>)\<rparr>)"
  by (simp add: bind_def bind_to_def ov_get_def add_after_observer_def two_values_simps
      numeral_3_eq_3 numeral_2_eq_2 Let_def fun_upd_twist)

lemma bound_pair_simps:
  "heap bound_pair 0 =
     \<lparr>beforeObserverList = [], afterObserverList = [Forward 0 1], val = PInt 1,
      bindingMap = [1 \<mapsto> Forward 1 0]\<rparr>"
  "heap bound_pair (Suc 0) =
     \<lparr>beforeObserverList = [], afterObserverList = [Forward 1 0], val = PInt 1,
      bindingMap = [0 \<mapsto> Forward 0 1]\<rparr>"
  "calls bound_pair = []"
  unfolding bound_pair_def bind_two_values
  by (simp_all add: world_after_def two_values_simps)


lemma twice_bound_simps:
  "heap twice_bound 0 =
     \<lparr>beforeObserverList = [], afterObserverList = [], val = PInt 2,
      bindingMap = [1 \<mapsto> Forward 1 0]\<rparr>"
  "heap twice_bound (Suc 0) =
     \<lparr>beforeObserverList = [], afterObserverList = [Forward 0 0, Forward 1 0], val = PInt 2,
      bindingMap = Map.empty\<rparr>"
  by (simp_all add: twice_bound_def world_after_def bind_to_def ov_get_def
      add_after_observer_def two_values_simps numeral_3_eq_3 Let_def)

subsection \<open>Binding\<close>




text \<open>
  C10, at \<^verbatim>\<open>a.bind_to(b); a.bind_to(b); a.unbind_from(b)\<close>: two forwarding observers
  are on \<open>b\<close> and the binding map of \<open>a\<close> keeps the second one, as the claim says. But
  \<^verbatim>\<open>unbind_from\<close> looks for it in the after-observers of \<open>a\<close> itself, raises ValueError
  and removes nothing.
\<close>

theorem unbind_after_double_bind:
  "afterObserverList (heap twice_bound 1) = [Forward 0 0, Forward 1 0]
   \<and> bindingMap (heap twice_bound 0) 1 = Some (Forward 1 0)
   \<and> unbind_from 0 (Ref 1) twice_bound = (Inl ValueError, twice_bound)"
  by (simp add: twice_bound_simps unbind_from_def remove_after_observer_def py_list_remove_def)

text \<open>The same slip without the second \<^verbatim>\<open>bind_to\<close>: no binding can be undone.\<close>

lemma unbind_from_raises:
  assumes "bindingMap (heap w a) b = Some lam"
      and "lam \<notin> set (afterObserverList (heap w a))"
  shows "unbind_from a (Ref b) w = (Inl ValueError, w)"
  using assms by (simp add: unbind_from_def remove_after_observer_def py_list_remove_def)

subsection \<open>Termination of a set on a bound pair\<close>

lemma touch_simps [simp]:
  "beforeObserverList (heap (touch a v tr w) x) = beforeObserverList (heap w x)"
  "afterObserverList (heap (touch a v tr w) x) = afterObserverList (heap w x)"
  "val (heap (touch a v tr w) x) = (if x = a then v else val (heap w x))"
  "calls (touch a v tr w) = tr"
  by (simp_all add: touch_def)


lemma touch_calls: "(touch a v tr w)\<lparr>calls := tr'\<rparr> = touch a v tr' w"
  by (simp add: touch_def)






text \<open>On the pair of the scenario the three calls are needed, and they change both values.\<close>

lemma set_on_bound_pair_example:
  "ov_set 2 0 (PInt 7) bound_pair = None"
  "outcome (ov_set 3 0 (PInt 7) bound_pair) = Some (Inr ())"
  "value_after 0 (ov_set 3 0 (PInt 7) bound_pair) = Some (PInt 7)"
  "value_after 1 (ov_set 3 0 (PInt 7) bound_pair) = Some (PInt 7)"
  by (simp_all add: outcome_def value_after_def ov_get_def bound_pair_simps
      numeral_3_eq_3 numeral_2_eq_2 Let_def)

section \<open>Properties of the containers\<close>

subsection \<open>The dispatch loop\<close>

lemma call_observers_recs:
  "list_all is_rec cbs \<Longrightarrow> call_observers cbs ev tr = (Inr (), tr @ invocations cbs ev)"
proof (induction cbs arbitrary: tr)
  case Nil
  then show ?case by (simp add: invocations_def)
next
  case (Cons cb cbs)
  then show ?case by (cases cb) (simp_all add: invocations_def)
qed



subsection \<open>Dispatch around a mutation\<close>





subsection \<open>Every method is its check, then the dispatch around its mutation\<close>




subsection \<open>Deleting from a list by index\<close>

text \<open>
  C3, at \<^verbatim>\<open>l = ObservableList([10]); del l[0]\<close> with one observer on each side: the
  before-observer receives the DELETE event, then \<^verbatim>\<open>dict.__delitem__\<close> raises
  TypeError on the list; the element stays and the after-observer is never called.
\<close>

theorem ol_delitem_example:
  "ol_delitem 0 (watched [PInt 10]) =
     (Inl TypeError,
      \<lparr>beforeObserverList = [Recorder 0], afterObserverList = [Recorder 1],
       storage = [PInt 10],
       trace = [(Recorder 0, Event ''delete'' (PInt 0) (PInt 10) PNone)]\<rparr>)"
  by (simp add: ol_delitem_def watched_def py_list_getitem_def py_index_def
      call_before_observers_def dict_delitem_on_list_def)

text \<open>In general \<^verbatim>\<open>del l[i]\<close> never returns normally and never changes the list.\<close>

lemma ol_delitem_fails:
  "(\<exists>e. fst (ol_delitem index self) = Inl e)
   \<and> storage (snd (ol_delitem index self)) = storage self"
  by (auto simp add: ol_delitem_def call_before_observers_def dict_delitem_on_list_def
      split: sum.splits prod.splits)

subsection \<open>Updating a dictionary\<close>

text \<open>
  C2, at \<^verbatim>\<open>od = ObservableDict(); od.update({"a": 1}, b=2)\<close> with one observer on each
  side: the key of the dictionary is stored and announced, the keyword argument is
  neither.
\<close>

theorem od_update_example:
  "od_update (DictData [(PStr ''a'', PInt 1)]) [(''b'', PInt 2)] (watched []) =
     (Inr (),
      \<lparr>beforeObserverList = [Recorder 0], afterObserverList = [Recorder 1],
       storage = [(PStr ''a'', PInt 1)],
       trace = [(Recorder 0, Event ''create'' (PStr ''a'') PNone (PInt 1)),
                (Recorder 1, Event ''create'' (PStr ''a'') PNone (PInt 1))]\<rparr>)"
  by (simp add: od_update_def od_setitem_def watched_def py_dict_contains_def
      py_dict_setitem_def call_before_observers_def call_after_observers_def Let_def)

text \<open>The same call with the items as a sequence of pairs stores the keyword argument.\<close>

lemma od_update_pairs_example:
  "storage (snd (od_update (PairData [(PStr ''a'', PInt 1)]) [(''b'', PInt 2)] (watched []))) =
     [(PStr ''a'', PInt 1), (PStr ''b'', PInt 2)]"
  by (simp add: od_update_def od_setitem_def watched_def py_dict_contains_def
      py_dict_setitem_def call_before_observers_def call_after_observers_def Let_def)

text \<open>With a dictionary as \<^verbatim>\<open>data\<close> the keyword arguments never matter.\<close>

lemma od_update_dict_ignores_kvargs:
  "od_update (DictData d) kvargs self = od_update (DictData d) [] self"
  by (simp add: od_update_def)

subsection \<open>Popping a key\<close>

lemma py_dict_getitem_pop:
  "py_dict_getitem d key = Inr v \<Longrightarrow> py_dict_pop d key dv = Inr (v, remove_item key d)"
  by (auto simp add: py_dict_getitem_def py_dict_pop_def split: if_splits option.splits)

text \<open>
  C7: with the key present and observers that return, \<^verbatim>\<open>pop\<close> dispatches one DELETE
  pair and returns the stored value; with the key absent it raises KeyError, calls
  nobody and changes nothing; and whatever it returns is what the built-in
  \<^verbatim>\<open>dict.pop(key, default)\<close> returns on the same dictionary.
\<close>

theorem od_pop_present_absent:
  "(py_dict_getitem (storage self) key = Inr v
      \<and> list_all is_rec (beforeObserverList self) \<and> list_all is_rec (afterObserverList self)
    \<longrightarrow> od_pop key dv self =
          (Inr v, self\<lparr>storage := remove_item key (storage self),
                       trace := trace self @ notifications self (Event ''delete'' key v PNone)\<rparr>))
   \<and> (py_dict_contains (storage self2) key2 = Inr False
    \<longrightarrow> od_pop key2 dv2 self2 = (Inl KeyError, self2))
   \<and> (od_pop key3 dv3 self3 = (Inr r, self3')
    \<longrightarrow> (\<exists>d'. py_dict_pop (storage self3) key3 dv3 = Inr (r, d')))"
proof (intro conjI impI)
  assume h: "py_dict_getitem (storage self) key = Inr v
      \<and> list_all is_rec (beforeObserverList self) \<and> list_all is_rec (afterObserverList self)"
  then show "od_pop key dv self =
          (Inr v, self\<lparr>storage := remove_item key (storage self),
                       trace := trace self @ notifications self (Event ''delete'' key v PNone)\<rparr>)"
    by (simp add: od_pop_def call_before_observers_def call_after_observers_def
        call_observers_recs py_dict_getitem_pop notifications_def)
next
  assume "py_dict_contains (storage self2) key2 = Inr False"
  then show "od_pop key2 dv2 self2 = (Inl KeyError, self2)"
    by (auto simp add: od_pop_def py_dict_contains_def py_dict_getitem_def split: if_splits)
next
  assume "od_pop key3 dv3 self3 = (Inr r, self3')"
  then show "\<exists>d'. py_dict_pop (storage self3) key3 dv3 = Inr (r, d')"
    by (auto simp add: od_pop_def call_before_observers_def call_after_observers_def
        split: sum.splits prod.splits)
qed

theorem od_pop_present_absent_witness:
  "py_dict_getitem (storage (watched [(PStr ''b'', PInt 7)])) (PStr ''b'') = Inr (PInt 7)
   \<and> list_all is_rec (beforeObserverList (watched [(PStr ''b'', PInt 7)]))
   \<and> list_all is_rec (afterObserverList (watched [(PStr ''b'', PInt 7)]))
   \<and> od_pop (PStr ''b'') PNone (watched [(PStr ''b'', PInt 7)]) =
       (Inr (PInt 7),
        \<lparr>beforeObserverList = [Recorder 0], afterObserverList = [Recorder 1], storage = [],
         trace = [(Recorder 0, Event ''delete'' (PStr ''b'') (PInt 7) PNone),
                  (Recorder 1, Event ''delete'' (PStr ''b'') (PInt 7) PNone)]\<rparr>)
   \<and> py_dict_contains (storage (watched [(PStr ''b'', PInt 7)])) (PStr ''c'') = Inr False
   \<and> od_pop (PStr ''c'') (PInt 5) (watched [(PStr ''b'', PInt 7)]) =
       (Inl KeyError, watched [(PStr ''b'', PInt 7)])
   \<and> (\<exists>d'. py_dict_pop (storage (watched [(PStr ''b'', PInt 7)])) (PStr ''b'') PNone
             = Inr (PInt 7, d'))"
proof -
  let ?s = "watched [(PStr ''b'', PInt 7)]"
  let ?s' = "\<lparr>beforeObserverList = [Recorder 0], afterObserverList = [Recorder 1],
              storage = [], trace = [(Recorder 0, Event ''delete'' (PStr ''b'') (PInt 7) PNone),
                  (Recorder 1, Event ''delete'' (PStr ''b'') (PInt 7) PNone)]\<rparr>"
  have h1: "py_dict_getitem (storage ?s) (PStr ''b'') = Inr (PInt 7)
      \<and> list_all is_rec (beforeObserverList ?s) \<and> list_all is_rec (afterObserverList ?s)"
    by (simp add: watched_def py_dict_getitem_def)
  have h2: "py_dict_contains (storage ?s) (PStr ''c'') = Inr False"
    by (simp add: watched_def py_dict_contains_def)
  note t = od_pop_present_absent[where self = ?s and key = "PStr ''b''" and v = "PInt 7"
      and dv = PNone and ?self2.0 = ?s and ?key2.0 = "PStr ''c''" and ?dv2.0 = "PInt 5"
      and ?self3.0 = ?s and ?key3.0 = "PStr ''b''" and ?dv3.0 = PNone and r = "PInt 7"
      and ?self3' = ?s']
  from t h1 have c1: "od_pop (PStr ''b'') PNone ?s =
     (Inr (PInt 7), ?s\<lparr>storage := remove_item (PStr ''b'') (storage ?s),
        trace := trace ?s @ notifications ?s (Event ''delete'' (PStr ''b'') (PInt 7) PNone)\<rparr>)"
    by blast
  then have c1': "od_pop (PStr ''b'') PNone ?s = (Inr (PInt 7), ?s')"
    by (simp add: watched_def remove_item_def notifications_def invocations_def)
  from t h2 have c2: "od_pop (PStr ''c'') (PInt 5) ?s = (Inl KeyError, ?s)" by blast
  from t c1' have c3: "\<exists>d'. py_dict_pop (storage ?s) (PStr ''b'') PNone = Inr (PInt 7, d')"
    by blast
  from h1 h2 c1' c2 c3 show ?thesis by blast
qed

subsection \<open>Writes that change nothing\<close>

lemma store_item_same: "map_of d k = Some v \<Longrightarrow> store_item k v d = d"
  by (induction d) (auto split: if_splits)

text \<open>
  C4: a write of the value already stored returns at once. The result is the state
  it started from, so no callback was called and nothing stored has changed: for
  \<^verbatim>\<open>set\<close> of an ObservableValue, for index assignment on an ObservableList, for
  item assignment on an ObservableDict and for attribute assignment on an
  ObservableObject (a public name that \<^verbatim>\<open>getattr\<close> finds, or an underscore name
  stored on the instance).
\<close>

theorem noop_write:
  "(val (heap w a) = v \<longrightarrow> ov_set (Suc n) a v w = Some (Inr (), w))
   \<and> (py_list_getitem (storage l) i = Inr x \<longrightarrow> ol_setitem i x l = (Inr (), l))
   \<and> (py_dict_getitem (storage d) k = Inr y \<longrightarrow> od_setitem k y d = (Inr (), d))
   \<and> (\<not> startswith_underscore key \<and> py_getattr (storage ob) key = Inr z
        \<longrightarrow> oo_setattr key z ob = (Inr (), ob))
   \<and> (startswith_underscore key' \<and> map_of (storage ob') key' = Some z'
        \<longrightarrow> oo_setattr key' z' ob' = (Inr (), ob'))"
proof (intro conjI impI)
  assume "val (heap w a) = v"
  then show "ov_set (Suc n) a v w = Some (Inr (), w)" by simp
next
  assume "py_list_getitem (storage l) i = Inr x"
  then show "ol_setitem i x l = (Inr (), l)" by (simp add: ol_setitem_def)
next
  assume "py_dict_getitem (storage d) k = Inr y"
  then show "od_setitem k y d = (Inr (), d)"
    by (auto simp add: od_setitem_def py_dict_getitem_def py_dict_contains_def
        split: if_splits option.splits)
next
  assume "\<not> startswith_underscore key \<and> py_getattr (storage ob) key = Inr z"
  then show "oo_setattr key z ob = (Inr (), ob)"
    by (simp add: oo_setattr_def py_hasattr_def)
next
  assume "startswith_underscore key' \<and> map_of (storage ob') key' = Some z'"
  then show "oo_setattr key' z' ob' = (Inr (), ob')"
    by (simp add: oo_setattr_def store_item_same)
qed

theorem noop_write_witness:
  "val (heap bound_pair 0) = PInt 1
   \<and> ov_set (Suc 0) 0 (PInt 1) bound_pair = Some (Inr (), bound_pair)
   \<and> py_list_getitem (storage (watched [PStr ''a'', PStr ''c''])) (- 1) = Inr (PStr ''c'')
   \<and> ol_setitem (- 1) (PStr ''c'') (watched [PStr ''a'', PStr ''c''])
       = (Inr (), watched [PStr ''a'', PStr ''c''])
   \<and> py_dict_getitem (storage (watched [(PStr ''x'', PInt 1)])) (PStr ''x'') = Inr (PInt 1)
   \<and> od_setitem (PStr ''x'') (PInt 1) (watched [(PStr ''x'', PInt 1)])
       = (Inr (), watched [(PStr ''x'', PInt 1)])
   \<and> \<not> startswith_underscore ''text''
   \<and> py_getattr (storage (watched [(''text'', PStr ''a'')])) ''text'' = Inr (PStr ''a'')
   \<and> oo_setattr ''text'' (PStr ''a'') (watched [(''text'', PStr ''a'')])
       = (Inr (), watched [(''text'', PStr ''a'')])
   \<and> startswith_underscore ''_x''
   \<and> map_of (storage (watched [(''_x'', PInt 3)])) ''_x'' = Some (PInt 3)
   \<and> oo_setattr ''_x'' (PInt 3) (watched [(''_x'', PInt 3)])
       = (Inr (), watched [(''_x'', PInt 3)])"
proof -
  have h1: "val (heap bound_pair 0) = PInt 1" by (simp add: bound_pair_simps)
  have h2: "py_list_getitem (storage (watched [PStr ''a'', PStr ''c''])) (- 1) = Inr (PStr ''c'')"
    by (simp add: watched_def py_list_getitem_def py_index_def)
  have h3: "py_dict_getitem (storage (watched [(PStr ''x'', PInt 1)])) (PStr ''x'') = Inr (PInt 1)"
    by (simp add: watched_def py_dict_getitem_def)
  have h4: "\<not> startswith_underscore ''text''
      \<and> py_getattr (storage (watched [(''text'', PStr ''a'')])) ''text'' = Inr (PStr ''a'')"
    by (simp add: watched_def py_getattr_def startswith_underscore_def)
  have h5: "startswith_underscore ''_x''
      \<and> map_of (storage (watched [(''_x'', PInt 3)])) ''_x'' = Some (PInt 3)"
    by (simp add: watched_def startswith_underscore_def)
  note t = noop_write[where w = bound_pair and a = 0 and v = "PInt 1" and n = 0
      and l = "watched [PStr ''a'', PStr ''c'']" and i = "- 1" and x = "PStr ''c''"
      and d = "watched [(PStr ''x'', PInt 1)]" and k = "PStr ''x''" and y = "PInt 1"
      and key = "''text''" and z = "PStr ''a''" and ob = "watched [(''text'', PStr ''a'')]"
      and key' = "''_x''" and z' = "PInt 3" and ob' = "watched [(''_x'', PInt 3)]"]
  from t h1 h2 h3 h4 h5 show ?thesis by blast
qed

subsection \<open>CREATE and MODIFY\<close>








subsection \<open>Update as a loop of item assignments\<close>





subsection \<open>The invocations made by one value\<close>

lemma calls_from_simps [simp]:
  "calls_from a (w\<lparr>heap := h\<rparr>) = calls_from a w"
  "calls_from a (w\<lparr>calls := calls w @ [(cb, s, old, new)]\<rparr>) =
     (if s = a then calls_from a w @ [(cb, s, old, new)] else calls_from a w)"
  by (simp_all add: calls_from_def source_def)





subsection \<open>One pair of events per call\<close>






subsection \<open>A callback that raises\<close>














subsection \<open>What bind leaves behind\<close>

text \<open>No \<^verbatim>\<open>set\<close> changes an observer list: first for the loops, then for the nested calls.\<close>

lemma calls_keep_observers:
  assumes IH: "\<And>x w r w'. ov_set n x v w = Some (r, w') \<Longrightarrow>
                  beforeObserverList (heap w' y) = beforeObserverList (heap w y)
                  \<and> afterObserverList (heap w' y) = afterObserverList (heap w y)"
  shows "call_observers_ov n cbs s old v w = Some (r, w') \<Longrightarrow>
         beforeObserverList (heap w' y) = beforeObserverList (heap w y)
         \<and> afterObserverList (heap w' y) = afterObserverList (heap w y)"
proof (induction cbs arbitrary: w)
  case Nil
  then show ?case by simp
next
  case (Cons cb cbs)
  let ?w0 = "w\<lparr>calls := calls w @ [(cb, s, old, v)]\<rparr>"
  from Cons.prems obtain r1 w1 where one: "call_callback n cb s old v ?w0 = Some (r1, w1)"
    by (auto split: option.splits)
  have i1: "beforeObserverList (heap w1 y) = beforeObserverList (heap w y)
      \<and> afterObserverList (heap w1 y) = afterObserverList (heap w y)"
  proof (cases cb)
    case (External e)
    with one show ?thesis by (cases e) auto
  next
    case (Forward l t)
    with one have "ov_set n t v ?w0 = Some (r1, w1)" by simp
    from IH[OF this] show ?thesis by simp
  qed
  show ?case
  proof (cases r1)
    case (Inl e)
    with one Cons.prems i1 show ?thesis by simp
  next
    case (Inr u)
    with one Cons.prems have "call_observers_ov n cbs s old v w1 = Some (r, w')" by simp
    from Cons.IH[OF this] i1 show ?thesis by simp
  qed
qed

lemma set_keeps_observers:
  "ov_set n x v w = Some (r, w') \<Longrightarrow>
   beforeObserverList (heap w' y) = beforeObserverList (heap w y)
   \<and> afterObserverList (heap w' y) = afterObserverList (heap w y)"
proof (induction n arbitrary: x w r w')
  case 0
  then show ?case by simp
next
  case (Suc n)
  show ?case
  proof (cases "val (heap w x) = v")
    case True
    with Suc.prems show ?thesis by simp
  next
    case False
    from Suc.prems False obtain rb w1 where
      bef: "call_observers_ov n (beforeObserverList (heap w x)) x (val (heap w x)) v w = Some (rb, w1)"
      by (auto simp: Let_def split: option.splits)
    have ih: "\<And>x w r w'. ov_set n x v w = Some (r, w') \<Longrightarrow>
        beforeObserverList (heap w' y) = beforeObserverList (heap w y)
        \<and> afterObserverList (heap w' y) = afterObserverList (heap w y)"
      by (rule Suc.IH)
    from calls_keep_observers[where n = n and v = v and y = y, OF ih bef]
    have i1: "beforeObserverList (heap w1 y) = beforeObserverList (heap w y)"
      "afterObserverList (heap w1 y) = afterObserverList (heap w y)" by simp_all
    show ?thesis
    proof (cases rb)
      case (Inl e)
      with Suc.prems False bef i1 show ?thesis by (simp add: Let_def)
    next
      case (Inr u)
      let ?w2 = "w1\<lparr>heap := (heap w1)(x := (heap w1 x)\<lparr>val := v\<rparr>)\<rparr>"
      from Suc.prems False bef Inr have aft:
        "call_observers_ov n (afterObserverList (heap ?w2 x)) x (val (heap w x)) v ?w2 = Some (r, w')"
        by (simp add: Let_def)
      from calls_keep_observers[where n = n and v = v and y = y, OF ih aft]
      have "beforeObserverList (heap w' y) = beforeObserverList (heap ?w2 y)
        \<and> afterObserverList (heap w' y) = afterObserverList (heap ?w2 y)" .
      moreover have "beforeObserverList (heap ?w2 y) = beforeObserverList (heap w1 y)
        \<and> afterObserverList (heap ?w2 y) = afterObserverList (heap w1 y)" by simp
      ultimately show ?thesis using i1 by (simp only:)
    qed
  qed
qed

lemma external_forwards_only_to: "list_all is_external cbs \<Longrightarrow> list_all (forwards_only_to t) cbs"
proof (induction cbs)
  case Nil
  then show ?case by simp
next
  case (Cons cb cbs)
  then show ?case by (cases cb) simp_all
qed

lemma bind_to_observers:
  assumes "bind_to n self (Ref other) w = Some (r, w')"
  shows "beforeObserverList (heap w' y) = beforeObserverList (heap w y)
         \<and> afterObserverList (heap w' y) =
             (if y = other then afterObserverList (heap w y) @ [Forward (next_lambda w) self]
              else afterObserverList (heap w y))"
proof -
  let ?lam = "Forward (next_lambda w) self"
  let ?w1 = "w\<lparr>next_lambda := Suc (next_lambda w),
               heap := (heap w)(self := (heap w self)
                         \<lparr>bindingMap := (bindingMap (heap w self))(other \<mapsto> ?lam)\<rparr>)\<rparr>"
  let ?w2 = "?w1\<lparr>heap := (heap ?w1)(other := add_after_observer ?lam (heap ?w1 other))\<rparr>"
  from assms have "ov_set n self (ov_get other ?w2) ?w2 = Some (r, w')"
    by (simp add: bind_to_def Let_def)
  from set_keeps_observers[OF this, of y] show ?thesis
    by (auto simp add: add_after_observer_def)
qed

text \<open>
  Two values whose observers were all external before \<^verbatim>\<open>bind(a, b)\<close> are, whenever
  the call returns, a pair in the sense of the termination theorem.
\<close>

lemma bind_makes_pair:
  assumes "bind n (Ref a) (Ref b) w = Some (r, w')"
      and "list_all is_external (beforeObserverList (heap w a))"
      and "list_all is_external (afterObserverList (heap w a))"
      and "list_all is_external (beforeObserverList (heap w b))"
      and "list_all is_external (afterObserverList (heap w b))"
  shows "list_all is_external (beforeObserverList (heap w' a))
         \<and> list_all (forwards_only_to b) (afterObserverList (heap w' a))
         \<and> list_all is_external (beforeObserverList (heap w' b))
         \<and> list_all (forwards_only_to a) (afterObserverList (heap w' b))"
proof -
  from assms(1) obtain r1 w1 where first: "bind_to n b (Ref a) w = Some (r1, w1)"
    by (auto simp add: bind_def split: option.splits)
  note o1 = bind_to_observers[OF first]
  note fa = external_forwards_only_to[OF assms(3), of b]
  note fb = external_forwards_only_to[OF assms(5), of a]
  show ?thesis
  proof (cases r1)
    case (Inl e)
    with assms(1) first have "w' = w1" by (simp add: bind_def)
    with o1[of a] o1[of b] assms(2,4) fa fb show ?thesis by auto
  next
    case (Inr u)
    with assms(1) first have "bind_to n a (Ref b) w1 = Some (r, w')" by (simp add: bind_def)
    note o2 = bind_to_observers[OF this]
    from o1[of a] o1[of b] o2[of a] o2[of b] assms(2,4) fa fb show ?thesis by auto
  qed
qed

end
